theory Spec2Isabelle
  imports Complex_Main "HOL-Library.Multiset"
begin

section \<open>JavaScript values\<close>

text \<open>
  The scoring code (debug.js, \<^verbatim>\<open>src/unnamed/part_001\<close>) and the GeoJSON handler
  (server.js) compute with JavaScript numbers and with loosely typed property bags.

  A JavaScript number is modelled as an exact real number or one of the three special
  values of IEEE 754. Rounding, overflow of finite arithmetic and the sign of zero are not
  part of the model: \<open>Num 0\<close> stands for both zeros.
\<close>

datatype jsnum = Num real | PInf | NInf | NaN

instantiation jsnum :: comm_monoid_add
begin

definition zero_jsnum :: jsnum where
  "zero_jsnum = Num 0"

fun plus_jsnum :: "jsnum \<Rightarrow> jsnum \<Rightarrow> jsnum" where
  "plus_jsnum NaN y = NaN"
| "plus_jsnum x NaN = NaN"
| "plus_jsnum (Num a) (Num b) = Num (a + b)"
| "plus_jsnum PInf NInf = NaN"
| "plus_jsnum NInf PInf = NaN"
| "plus_jsnum PInf y = PInf"
| "plus_jsnum x PInf = PInf"
| "plus_jsnum NInf y = NInf"
| "plus_jsnum x NInf = NInf"

instance
proof
  fix x y z :: jsnum
  show "x + y + z = x + (y + z)"
    by (cases x; cases y; cases z; simp)
  show "x + y = y + x"
    by (cases x; cases y; simp)
  show "0 + x = x"
    unfolding zero_jsnum_def by (cases x; simp)
qed

end

instantiation jsnum :: "{minus, times, inverse}"
begin

fun minus_jsnum :: "jsnum \<Rightarrow> jsnum \<Rightarrow> jsnum" where
  "minus_jsnum NaN y = NaN"
| "minus_jsnum x NaN = NaN"
| "minus_jsnum (Num a) (Num b) = Num (a - b)"
| "minus_jsnum PInf PInf = NaN"
| "minus_jsnum NInf NInf = NaN"
| "minus_jsnum PInf y = PInf"
| "minus_jsnum x NInf = PInf"
| "minus_jsnum NInf y = NInf"
| "minus_jsnum x PInf = NInf"

definition inf_of_sign :: "real \<Rightarrow> jsnum" where
  "inf_of_sign a = (if 0 < a then PInf else if a < 0 then NInf else NaN)"

fun times_jsnum :: "jsnum \<Rightarrow> jsnum \<Rightarrow> jsnum" where
  "times_jsnum NaN y = NaN"
| "times_jsnum x NaN = NaN"
| "times_jsnum (Num a) (Num b) = Num (a * b)"
| "times_jsnum (Num a) PInf = inf_of_sign a"
| "times_jsnum (Num a) NInf = inf_of_sign (- a)"
| "times_jsnum PInf (Num b) = inf_of_sign b"
| "times_jsnum NInf (Num b) = inf_of_sign (- b)"
| "times_jsnum PInf PInf = PInf"
| "times_jsnum NInf NInf = PInf"
| "times_jsnum PInf NInf = NInf"
| "times_jsnum NInf PInf = NInf"

fun divide_jsnum :: "jsnum \<Rightarrow> jsnum \<Rightarrow> jsnum" where
  "divide_jsnum NaN y = NaN"
| "divide_jsnum x NaN = NaN"
| "divide_jsnum (Num a) (Num b) = (if b = 0 then inf_of_sign a else Num (a / b))"
| "divide_jsnum (Num a) PInf = Num 0"
| "divide_jsnum (Num a) NInf = Num 0"
| "divide_jsnum PInf (Num b) = (if 0 \<le> b then PInf else NInf)"
| "divide_jsnum NInf (Num b) = (if 0 \<le> b then NInf else PInf)"
| "divide_jsnum x y = NaN"

definition inverse_jsnum :: "jsnum \<Rightarrow> jsnum" where
  "inverse_jsnum x = divide (Num 1) x"

instance ..

end

text \<open>The comparison \<^verbatim>\<open>x > 0\<close>: false for \<open>NaN\<close>.\<close>

fun gt0 :: "jsnum \<Rightarrow> bool" where
  "gt0 (Num a) = (0 < a)"
| "gt0 PInf = True"
| "gt0 NInf = False"
| "gt0 NaN = False"

text \<open>The global \<^verbatim>\<open>isNaN\<close> applied to a number.\<close>

fun isNaN :: "jsnum \<Rightarrow> bool" where
  "isNaN NaN = True"
| "isNaN x = False"

text \<open>
  The values a property of a GeoJSON feature can hold. Objects and arrays do not occur as
  property values in this application and are left out.
\<close>

datatype jsval = JUndefined | JNull | JBool bool | JNumber jsnum | JString string

text \<open>Truthiness, as used by \<^verbatim>\<open>!x\<close> and \<^verbatim>\<open>a || b\<close>.\<close>

fun truthy :: "jsval \<Rightarrow> bool" where
  "truthy JUndefined = False"
| "truthy JNull = False"
| "truthy (JBool b) = b"
| "truthy (JNumber n) = (n \<noteq> Num 0 \<and> n \<noteq> NaN)"
| "truthy (JString s) = (s \<noteq> [])"

text \<open>\<^verbatim>\<open>a || b\<close>\<close>

definition js_or :: "jsval \<Rightarrow> jsval \<Rightarrow> jsval" where
  "js_or a b = (if truthy a then a else b)"

text \<open>
  An object as a property bag: reading a key that is not there gives \<^verbatim>\<open>undefined\<close>.
  \<open>objectLiteral\<close> builds the bag of an object literal from its list of keys and values;
  where a key is written twice the later entry counts.
\<close>

type_synonym properties = "string \<Rightarrow> jsval"

definition readProperty :: "(string \<rightharpoonup> jsval) \<Rightarrow> properties" where
  "readProperty obj key = (case obj key of None \<Rightarrow> JUndefined | Some v \<Rightarrow> v)"

definition objectLiteral :: "(string \<times> jsval) list \<Rightarrow> properties" where
  "objectLiteral kvs = readProperty (map_of (rev kvs))"

subsection \<open>parseFloat\<close>

text \<open>
  \<^verbatim>\<open>parseFloat\<close> is a builtin of the language. On a string it skips leading white space
  and reads the longest prefix that is a decimal literal (sign, \<^verbatim>\<open>Infinity\<close> or digits
  with an optional fraction and exponent); without such a prefix the result is \<open>NaN\<close>.
  Any other argument is first converted to a string, so \<^verbatim>\<open>undefined\<close>, \<^verbatim>\<open>null\<close>,
  \<^verbatim>\<open>true\<close> and \<^verbatim>\<open>false\<close> give \<open>NaN\<close> and a number gives itself. Only the ASCII white
  space characters are modelled.
\<close>

definition isWhiteSpace :: "char \<Rightarrow> bool" where
  "isWhiteSpace c = (c \<in> set [CHR '' '', CHR 0x09, CHR 0x0A, CHR 0x0B, CHR 0x0C, CHR 0x0D])"

definition isDigit :: "char \<Rightarrow> bool" where
  "isDigit c = (c \<in> set ''0123456789'')"

definition digitVal :: "char \<Rightarrow> nat" where
  "digitVal c = of_char c - 48"

definition digitsVal :: "string \<Rightarrow> nat" where
  "digitsVal ds = foldl (\<lambda>n c. 10 * n + digitVal c) 0 ds"

definition scale10 :: "real \<Rightarrow> int \<Rightarrow> real" where
  "scale10 m e = (if 0 \<le> e then m * 10 ^ nat e else m / 10 ^ nat (- e))"

definition exponentPart :: "string \<Rightarrow> int" where
  "exponentPart s =
     (case s of
        [] \<Rightarrow> 0
      | c # t \<Rightarrow>
          if c = CHR ''e'' \<or> c = CHR ''E'' then
            (case t of
               [] \<Rightarrow> 0
             | d # u \<Rightarrow>
                 if d = CHR ''+'' then
                   (if takeWhile isDigit u = [] then 0 else int (digitsVal (takeWhile isDigit u)))
                 else if d = CHR ''-'' then
                   (if takeWhile isDigit u = [] then 0 else - int (digitsVal (takeWhile isDigit u)))
                 else
                   (if takeWhile isDigit t = [] then 0 else int (digitsVal (takeWhile isDigit t))))
          else 0)"

definition strUnsignedDecimalLiteral :: "string \<Rightarrow> jsnum" where
  "strUnsignedDecimalLiteral s =
     (let ip = takeWhile isDigit s;
          r1 = dropWhile isDigit s;
          hasDot = (r1 \<noteq> [] \<and> hd r1 = CHR ''.'');
          fp = (if hasDot then takeWhile isDigit (tl r1) else []);
          r2 = (if hasDot then dropWhile isDigit (tl r1) else r1)
      in if ip = [] \<and> fp = [] then
           (if take 8 s = ''Infinity'' then PInf else NaN)
         else
           Num (scale10 (real (digitsVal (ip @ fp))) (exponentPart r2 - int (length fp))))"

fun negate :: "jsnum \<Rightarrow> jsnum" where
  "negate (Num a) = Num (- a)"
| "negate PInf = NInf"
| "negate NInf = PInf"
| "negate NaN = NaN"

definition strDecimalLiteral :: "string \<Rightarrow> jsnum" where
  "strDecimalLiteral s =
     (case s of
        [] \<Rightarrow> NaN
      | c # t \<Rightarrow>
          if c = CHR ''+'' then strUnsignedDecimalLiteral t
          else if c = CHR ''-'' then negate (strUnsignedDecimalLiteral t)
          else strUnsignedDecimalLiteral s)"

fun parseFloat :: "jsval \<Rightarrow> jsnum" where
  "parseFloat (JString s) = strDecimalLiteral (dropWhile isWhiteSpace s)"
| "parseFloat (JNumber n) = n"
| "parseFloat v = NaN"

section \<open>The scoring engine\<close>

text \<open>
  \<^verbatim>\<open>calculateZipcodeScores\<close> of debug.js (\<^verbatim>\<open>src/unnamed/part_001\<close>, lines 193 to 284)
  and the replacement that \<^verbatim>\<open>applyFixes\<close> installs (lines 343 to 412).

  The property bag of a feature is a function from keys to values: reading a key that is
  not there gives \<^verbatim>\<open>undefined\<close>. Keys inherited from \<^verbatim>\<open>Object.prototype\<close> are not
  modelled. A feature may lack its \<^verbatim>\<open>properties\<close>.
\<close>

record feature =
  properties :: "properties option"

text \<open>
  An entry of \<^verbatim>\<open>state.criteria\<close>. The weight is a number; \<^verbatim>\<open>invert\<close> and
  \<^verbatim>\<open>enabled\<close> are read for their truthiness only.
\<close>

record criterion =
  criterion_id :: string
  weight :: jsnum
  invert :: bool
  enabled :: bool

record geojson =
  features :: "feature list option"

record state =
  criteria :: "criterion list"
  zipcodeData :: "geojson option"

text \<open>
  An entry of \<^verbatim>\<open>criteriaScores\<close>: \<open>Missing\<close> is the object
  \<^verbatim>\<open>{ value: 'missing', score: 'N/A', used: false }\<close>, \<open>Scored\<close> the object with the
  fields \<^verbatim>\<open>originalValue\<close>, \<^verbatim>\<open>inverted\<close>, \<^verbatim>\<open>score\<close>, \<^verbatim>\<open>weight\<close>,
  \<^verbatim>\<open>weightedScore\<close> and \<^verbatim>\<open>used: true\<close>.
\<close>

datatype criterionScore =
    Missing
  | Scored jsval bool jsnum jsnum jsnum

fun used :: "criterionScore \<Rightarrow> bool" where
  "used Missing = False"
| "used (Scored originalValue inverted score w weightedScore) = True"

record zipcodeScore =
  finalScore :: jsnum
  criteriaScores :: "string \<rightharpoonup> criterionScore"
  totalCriteria :: nat
  usedCriteria :: nat
  error :: "string option"

text \<open>
  The body of \<^verbatim>\<open>activeCriteria.forEach\<close> (lines 229 to 262), as a step on the four
  variables it updates: \<^verbatim>\<open>totalScore\<close>, \<^verbatim>\<open>totalWeight\<close>, \<^verbatim>\<open>usedCriteria\<close> and
  \<^verbatim>\<open>criteriaScores\<close>.
\<close>

definition scoreCriterion ::
  "properties \<Rightarrow> criterion \<Rightarrow>
   jsnum \<times> jsnum \<times> nat \<times> (string \<rightharpoonup> criterionScore) \<Rightarrow>
   jsnum \<times> jsnum \<times> nat \<times> (string \<rightharpoonup> criterionScore)" where
  "scoreCriterion props criterion =
     (\<lambda>(totalScore, totalWeight, usedCriteria, criteriaScores).
        let value = props (criterion_id criterion) in
        if value = JUndefined \<or> value = JNull then
          (totalScore, totalWeight, usedCriteria,
           criteriaScores(criterion_id criterion \<mapsto> Missing))
        else
          let score = parseFloat value;
              score = (if invert criterion then Num 10 - score else score)
          in (totalScore + score * weight criterion,
              totalWeight + weight criterion,
              usedCriteria + 1,
              criteriaScores(criterion_id criterion \<mapsto>
                Scored value (invert criterion) score (weight criterion)
                  (score * weight criterion))))"

text \<open>
  The score of one feature (lines 222 to 280): the loop over the active criteria, then
  the weighted average, or the result with \<^verbatim>\<open>finalScore: 0\<close> when the total weight is
  not greater than zero.
\<close>

definition scoreFeature :: "criterion list \<Rightarrow> properties \<Rightarrow> zipcodeScore" where
  "scoreFeature activeCriteria props =
     (let (totalScore, totalWeight, usedCriteria, criteriaScores) =
            fold (scoreCriterion props) activeCriteria (0, 0, 0, Map.empty)
      in  if gt0 totalWeight then
            \<lparr>finalScore = totalScore / totalWeight,
             criteriaScores = criteriaScores,
             totalCriteria = length activeCriteria,
             usedCriteria = usedCriteria,
             error = None\<rparr>
          else
            \<lparr>finalScore = Num 0,
             criteriaScores = criteriaScores,
             totalCriteria = length activeCriteria,
             usedCriteria = 0,
             error = Some ''No criteria with values found''\<rparr>)"

text \<open>\<^verbatim>\<open>feature.properties.ZIP || feature.properties.ZCTA5CE10\<close>\<close>

definition zipcodeOf :: "properties \<Rightarrow> jsval" where
  "zipcodeOf props = js_or (props ''ZIP'') (props ''ZCTA5CE10'')"

text \<open>
  \<^verbatim>\<open>scores[zipcode]\<close> converts the key to a string. The conversion of a number to its
  decimal notation is a builtin of the language; it is taken as the parameter
  \<open>numberToString\<close>, so that every result holds for whatever notation it produces.
\<close>

fun propertyKey :: "(jsnum \<Rightarrow> string) \<Rightarrow> jsval \<Rightarrow> string" where
  "propertyKey numberToString (JString s) = s"
| "propertyKey numberToString (JNumber n) = numberToString n"
| "propertyKey numberToString (JBool b) = (if b then ''true'' else ''false'')"
| "propertyKey numberToString JNull = ''null''"
| "propertyKey numberToString JUndefined = ''undefined''"

text \<open>
  \<^verbatim>\<open>calculateZipcodeScores(features)\<close>. \<open>None\<close> stands for a missing (falsy) argument.
  The result is the object \<^verbatim>\<open>scores\<close>, a map from keys to results; a later feature
  with the same key overwrites the entry of an earlier one.
\<close>

definition calculateZipcodeScores ::
  "(jsnum \<Rightarrow> string) \<Rightarrow> state \<Rightarrow> feature list option \<Rightarrow> (string \<rightharpoonup> zipcodeScore)" where
  "calculateZipcodeScores numberToString st fso =
     (case fso of
        None \<Rightarrow> Map.empty
      | Some fs \<Rightarrow>
          if length fs = 0 then Map.empty
          else
            let activeCriteria = filter enabled (criteria st) in
            if length activeCriteria = 0 then Map.empty
            else
              fold (\<lambda>feature scores.
                      case properties feature of
                        None \<Rightarrow> scores
                      | Some props \<Rightarrow>
                          let zipcode = zipcodeOf props in
                          if \<not> truthy zipcode then scores
                          else scores(propertyKey numberToString zipcode \<mapsto>
                                 scoreFeature activeCriteria props))
                   fs Map.empty)"

subsection \<open>The replacement installed by applyFixes\<close>

text \<open>
  The body of its \<^verbatim>\<open>activeCriteria.forEach\<close> (lines 379 to 400): the value is parsed
  first, and \<open>NaN\<close> (also the result for a missing value) is replaced by 5.
\<close>

definition fixedScoreCriterion ::
  "properties \<Rightarrow> criterion \<Rightarrow> jsnum \<times> jsnum \<times> nat \<Rightarrow> jsnum \<times> jsnum \<times> nat" where
  "fixedScoreCriterion props criterion =
     (\<lambda>(totalScore, totalWeight, usedCriteria).
        let value = parseFloat (props (criterion_id criterion));
            value = (if isNaN value then Num 5 else value);
            score = value;
            score = (if invert criterion then Num 10 - score else score)
        in (totalScore + score * weight criterion,
            totalWeight + weight criterion,
            usedCriteria + 1))"

definition fixedScoreFeature :: "criterion list \<Rightarrow> properties \<Rightarrow> jsnum" where
  "fixedScoreFeature activeCriteria props =
     (let (totalScore, totalWeight, usedCriteria) =
            fold (fixedScoreCriterion props) activeCriteria (0, 0, 0)
      in  if gt0 totalWeight then totalScore / totalWeight else Num 5)"

text \<open>
  The replacement takes no argument: it reads \<^verbatim>\<open>state.zipcodeData.features\<close>, and its
  result maps a key to a number.
\<close>

definition fixedCalculateZipcodeScores ::
  "(jsnum \<Rightarrow> string) \<Rightarrow> state \<Rightarrow> (string \<rightharpoonup> jsnum)" where
  "fixedCalculateZipcodeScores numberToString st =
     (case zipcodeData st of
        None \<Rightarrow> Map.empty
      | Some zd \<Rightarrow>
          (case features zd of
             None \<Rightarrow> Map.empty
           | Some fs \<Rightarrow>
               let activeCriteria = filter enabled (criteria st) in
               if length activeCriteria = 0 then Map.empty
               else
                 fold (\<lambda>feature scores.
                         case properties feature of
                           None \<Rightarrow> scores
                         | Some props \<Rightarrow>
                             let zipcode = zipcodeOf props in
                             if \<not> truthy zipcode then scores
                             else scores(propertyKey numberToString zipcode \<mapsto>
                                    fixedScoreFeature activeCriteria props))
                      fs Map.empty))"

subsection \<open>Notions used to state the properties of the scoring engine\<close>

text \<open>
  A criterion has an observation for a unit when the unit's property of that rating kind
  is neither \<^verbatim>\<open>undefined\<close> nor \<^verbatim>\<open>null\<close>.
\<close>

definition hasValue :: "properties \<Rightarrow> criterion \<Rightarrow> bool" where
  "hasValue props c =
     (props (criterion_id c) \<noteq> JUndefined \<and> props (criterion_id c) \<noteq> JNull)"

text \<open>
  The contributed score of a criterion: the value read as a number, subtracted from 10
  when the criterion is inverted.
\<close>

definition contributedScore :: "properties \<Rightarrow> criterion \<Rightarrow> jsnum" where
  "contributedScore props c =
     (if invert c then Num 10 - parseFloat (props (criterion_id c))
      else parseFloat (props (criterion_id c)))"

text \<open>The two sums of the weighted average, over the criteria that have an observation.\<close>

definition weightedSum :: "properties \<Rightarrow> criterion list \<Rightarrow> jsnum" where
  "weightedSum props cs =
     sum_list (map (\<lambda>c. contributedScore props c * weight c) (filter (hasValue props) cs))"

definition weightSum :: "properties \<Rightarrow> criterion list \<Rightarrow> jsnum" where
  "weightSum props cs = sum_list (map weight (filter (hasValue props) cs))"


text \<open>
  The key under which a feature's result is stored, \<open>None\<close> for a feature that the loop
  skips (no properties, or no truthy \<^verbatim>\<open>ZIP\<close> or \<^verbatim>\<open>ZCTA5CE10\<close>).
\<close>

definition featureKey :: "(jsnum \<Rightarrow> string) \<Rightarrow> feature \<Rightarrow> string option" where
  "featureKey numberToString f =
     (case properties f of
        None \<Rightarrow> None
      | Some props \<Rightarrow>
          if truthy (zipcodeOf props)
          then Some (propertyKey numberToString (zipcodeOf props))
          else None)"

text \<open>
  A stand-in for the number-to-string conversion in examples whose keys are strings, where
  it is never applied.
\<close>

definition noNumberKeys :: "jsnum \<Rightarrow> string" where
  "noNumberKeys n = []"

section \<open>The GeoJSON handler\<close>

text \<open>
  The route \<^verbatim>\<open>/housing_api/zipcodes/geojson\<close> of server.js (the same code in
  \<^verbatim>\<open>src/api/server.js\<close> and in \<^verbatim>\<open>src/unnamed/part_000\<close>), over the rows its two
  queries return. Columns follow database-schema.sql: a \<^verbatim>\<open>TEXT\<close> column that may be
  \<^verbatim>\<open>NULL\<close> is a \<open>string option\<close>, a \<^verbatim>\<open>REAL\<close> column a \<open>jsnum option\<close>.
\<close>

record zipcodes_row =
  z_zip :: string
  z_name :: "string option"
  z_county :: "string option"
  z_state :: "string option"
  z_geom :: "string option"

record zipcode_ratings_row =
  zr_id :: nat
  zr_zip :: "string option"
  zr_rating_type :: string
  zr_rating_value :: "jsnum option"
  zr_confidence :: "jsnum option"
  zr_source :: "string option"
  zr_source_url :: "string option"
  zr_last_updated :: "nat option"

text \<open>A column value as the database driver hands it to JavaScript.\<close>

definition textValue :: "string option \<Rightarrow> jsval" where
  "textValue t = (case t of None \<Rightarrow> JNull | Some s \<Rightarrow> JString s)"

definition realValue :: "jsnum option \<Rightarrow> jsval" where
  "realValue x = (case x of None \<Rightarrow> JNull | Some n \<Rightarrow> JNumber n)"

text \<open>
  The key \<^verbatim>\<open>row.zip\<close> of a rating row in \<^verbatim>\<open>ratingsByZipcode\<close>: the zip, or the string
  \<^verbatim>\<open>null\<close> for a row whose zip is \<^verbatim>\<open>NULL\<close>.
\<close>

definition ratingKey :: "zipcode_ratings_row \<Rightarrow> string" where
  "ratingKey row = (case zr_zip row of None \<Rightarrow> ''null'' | Some z \<Rightarrow> z)"

text \<open>
  The loop that fills \<^verbatim>\<open>ratingsByZipcode\<close>: one object per zip, keyed by rating type;
  a later row of the same zip and type overwrites the earlier value.
\<close>

definition organizeRatings ::
  "zipcode_ratings_row list \<Rightarrow> (string \<rightharpoonup> (string \<rightharpoonup> jsval))" where
  "organizeRatings rows =
     fold (\<lambda>row ratingsByZipcode.
             let key = ratingKey row;
                 ratings = (case ratingsByZipcode key of None \<Rightarrow> Map.empty | Some r \<Rightarrow> r)
             in ratingsByZipcode(key \<mapsto>
                  ratings(zr_rating_type row \<mapsto> realValue (zr_rating_value row))))
          rows Map.empty"

record geojson_feature =
  gf_properties :: properties
  gf_geometry :: "string option"

datatype http_error = NotFound404

text \<open>
  The handler: 404 when there is no zipcode, else one feature per zipcode row. The
  geometry is passed through. A failing query is answered with status 500; that path
  depends on the database only and is not modelled.
\<close>

definition zipcodesGeojson ::
  "zipcodes_row list \<Rightarrow> zipcode_ratings_row list \<Rightarrow> http_error + geojson_feature list" where
  "zipcodesGeojson zipcodesRows ratingsRows =
     (if length zipcodesRows = 0 then Inl NotFound404
      else
        let ratingsByZipcode = organizeRatings ratingsRows in
        Inr (map (\<lambda>row.
                let ratings = readProperty
                      (case ratingsByZipcode (z_zip row) of None \<Rightarrow> Map.empty | Some r \<Rightarrow> r)
                in \<lparr>gf_properties = objectLiteral
                       [(''ZIP'', JString (z_zip row)),
                        (''NAME'', textValue (z_name row)),
                        (''county'', textValue (z_county row)),
                        (''state'', textValue (z_state row)),
                        (''schoolRating'', js_or (ratings ''schoolRating'') JNull),
                        (''crimeRate'', js_or (ratings ''crimeRate'') JNull),
                        (''nicheRating'', js_or (ratings ''nicheRating'') JNull),
                        (''commuteTime'', js_or (ratings ''commuteTime'') JNull),
                        (''neighborhoodRating'', js_or (ratings ''neighborhoodRating'') JNull)],
                     gf_geometry = z_geom row\<rparr>)
             zipcodesRows))"

text \<open>
  The observation the table holds for a zip and a rating kind, as the handler reads it:
  the value of the last row of that key and kind (the unique index allows one such row
  only).
\<close>

definition lastRating :: "zipcode_ratings_row list \<Rightarrow> string \<Rightarrow> string \<Rightarrow> jsval option" where
  "lastRating rows z kind =
     map_option (\<lambda>row. realValue (zr_rating_value row))
       (find (\<lambda>row. ratingKey row = z \<and> zr_rating_type row = kind) (rev rows))"

text \<open>The rating kinds the handler puts into the properties of a feature.\<close>

definition advertisedKinds :: "string list" where
  "advertisedKinds =
     [''schoolRating'', ''crimeRate'', ''nicheRating'', ''commuteTime'', ''neighborhoodRating'']"

section \<open>The rating store\<close>












section \<open>The source scheduler\<close>

text \<open>The table \<^verbatim>\<open>data_sources\<close> of database-schema.sql; times are seconds.\<close>

record data_sources_row =
  ds_source_name :: string
  ds_last_updated :: "nat option"
  ds_next_update :: "nat option"
  ds_update_frequency :: "nat option"
  ds_url :: "string option"
  ds_notes :: "string option"

text \<open>
  force-update.sh (\<^verbatim>\<open>src/processor/init-system.sh\<close>, lines 30 to 39): the statement
  \<^verbatim>\<open>DELETE FROM data_sources;\<close> removes every row of the table; the script then restarts
  the processor, which runs the collection.
\<close>

definition force_update :: "data_sources_row list \<Rightarrow> data_sources_row list" where
  "force_update tbl = filter (\<lambda>row. False) tbl"

text \<open>
  Modelled from the spec: the SourceScheduler of section 4.2. The collection system that
  the processor runs (\<^verbatim>\<open>data_collection_system.py\<close>) is not among the sources. A source is
  registered with its name and refresh cadence; its record in \<^verbatim>\<open>data_sources\<close> is created
  by its first successful run.
\<close>

record source_config =
  sc_name :: string
  sc_update_frequency :: nat
  sc_url :: "string option"

text \<open>
  Modelled from the spec: a source is pending (due) when it has never run, that is when it
  has no record, or when its \<open>nextUpdate\<close> is null or not after \<open>now\<close>.
\<close>

definition isDue :: "data_sources_row list \<Rightarrow> nat \<Rightarrow> string \<Rightarrow> bool" where
  "isDue tbl now src =
     (case find (\<lambda>row. ds_source_name row = src) tbl of
        None \<Rightarrow> True
      | Some row \<Rightarrow> (case ds_next_update row of None \<Rightarrow> True | Some t \<Rightarrow> t \<le> now))"

text \<open>Modelled from the spec: \<^verbatim>\<open>dueSources(now)\<close>, a query without effect.\<close>

definition dueSources :: "source_config list \<Rightarrow> data_sources_row list \<Rightarrow> nat \<Rightarrow> string list" where
  "dueSources registry tbl now = filter (isDue tbl now) (map sc_name registry)"

text \<open>
  Modelled from the spec: the record of a successful run, \<open>lastUpdated = now\<close> and
  \<open>nextUpdate = now + updateFrequency\<close>, replacing the source's record if it has one.
\<close>

definition recordSuccess ::
  "source_config \<Rightarrow> nat \<Rightarrow> data_sources_row list \<Rightarrow> data_sources_row list" where
  "recordSuccess cfg now tbl =
     filter (\<lambda>row. ds_source_name row \<noteq> sc_name cfg) tbl @
     [\<lparr>ds_source_name = sc_name cfg, ds_last_updated = Some now,
       ds_next_update = Some (now + sc_update_frequency cfg),
       ds_update_frequency = Some (sc_update_frequency cfg),
       ds_url = sc_url cfg, ds_notes = None\<rparr>]"

text \<open>
  Modelled from the spec: \<^verbatim>\<open>tick(now)\<close>. Every due source is run; \<open>ingest\<close> tells
  whether the run of a source succeeds. A success is recorded, a failure leaves the table
  as it is (the source stays due). The result is the sequence of the sources run and the
  table after the tick.
\<close>

definition tick ::
  "(string \<Rightarrow> bool) \<Rightarrow> source_config list \<Rightarrow> nat \<Rightarrow> data_sources_row list \<Rightarrow>
   string list \<times> data_sources_row list" where
  "tick ingest registry now tbl =
     (dueSources registry tbl now,
      fold (\<lambda>cfg t. if isDue tbl now (sc_name cfg) \<and> ingest (sc_name cfg)
                     then recordSuccess cfg now t else t)
           registry tbl)"

text \<open>Modelled from the spec: \<^verbatim>\<open>forceAll()\<close>, which is what force-update.sh does to the table.\<close>

definition forceAll :: "data_sources_row list \<Rightarrow> data_sources_row list" where
  "forceAll tbl = force_update tbl"

section \<open>Properties of the scoring engine\<close>

subsection \<open>The loop over the criteria\<close>

lemma scoreCriterion_missing:
  "\<not> hasValue props c \<Longrightarrow>
   scoreCriterion props c (ts, tw, n, m) = (ts, tw, n, m(criterion_id c \<mapsto> Missing))"
  by (auto simp: scoreCriterion_def hasValue_def)

lemma scoreCriterion_present:
  "hasValue props c \<Longrightarrow>
   scoreCriterion props c (ts, tw, n, m) =
     (ts + contributedScore props c * weight c, tw + weight c, Suc n,
      m(criterion_id c \<mapsto>
        Scored (props (criterion_id c)) (invert c) (contributedScore props c) (weight c)
          (contributedScore props c * weight c)))"
  by (simp add: scoreCriterion_def hasValue_def contributedScore_def Let_def)

lemma fold_scoreCriterion_totals:
  "\<exists>m'. fold (scoreCriterion props) cs (ts, tw, n, m) =
     (ts + weightedSum props cs, tw + weightSum props cs,
      n + length (filter (hasValue props) cs), m')"
proof (induction cs arbitrary: ts tw n m)
  case Nil
  show ?case by (simp add: weightedSum_def weightSum_def)
next
  case (Cons c cs)
  show ?case
  proof (cases "hasValue props c")
    case True
    from Cons.IH[of "ts + contributedScore props c * weight c" "tw + weight c" "Suc n"]
    show ?thesis using True
      by (simp add: scoreCriterion_present weightedSum_def weightSum_def add.assoc)
  next
    case False
    from Cons.IH[of ts tw n] show ?thesis using False
      by (simp add: scoreCriterion_missing weightedSum_def weightSum_def)
  qed
qed

lemma fold_scoreCriterion_missing_entry:
  assumes "\<not> hasValue props c"
    and "c \<in> set cs \<or> m (criterion_id c) = Some Missing"
  shows "snd (snd (snd (fold (scoreCriterion props) cs (ts, tw, n, m)))) (criterion_id c) =
         Some Missing"
  using assms
proof (induction cs arbitrary: ts tw n m)
  case Nil
  then show ?case by simp
next
  case (Cons d cs)
  show ?case
  proof (cases "hasValue props d")
    case True
    then have ne: "criterion_id d \<noteq> criterion_id c"
      using Cons.prems(1) by (auto simp: hasValue_def)
    then have "d \<noteq> c" by auto
    with Cons.prems ne show ?thesis
      using True by (simp add: scoreCriterion_present Cons.IH)
  next
    case False
    show ?thesis
    proof (cases "criterion_id d = criterion_id c")
      case True
      then show ?thesis using False Cons.prems(1)
        by (simp add: scoreCriterion_missing Cons.IH)
    next
      case ne: False
      then have "d \<noteq> c" by auto
      with Cons.prems ne show ?thesis
        using False by (simp add: scoreCriterion_missing Cons.IH)
    qed
  qed
qed

subsection \<open>The result for one feature\<close>

lemma scoreFeature_gt0:
  assumes "gt0 (weightSum props cs)"
  shows "finalScore (scoreFeature cs props) = weightedSum props cs / weightSum props cs"
    and "usedCriteria (scoreFeature cs props) = length (filter (hasValue props) cs)"
  using fold_scoreCriterion_totals[of props cs 0 0 0 Map.empty] assms
  by (auto simp: scoreFeature_def)

lemma scoreFeature_not_gt0:
  assumes "\<not> gt0 (weightSum props cs)"
  shows "finalScore (scoreFeature cs props) = Num 0"
    and "usedCriteria (scoreFeature cs props) = 0"
  using fold_scoreCriterion_totals[of props cs 0 0 0 Map.empty] assms
  by (auto simp: scoreFeature_def)

lemma finalScore_scoreFeature:
  "finalScore (scoreFeature cs props) =
     (if gt0 (weightSum props cs) then weightedSum props cs / weightSum props cs else Num 0)"
  by (simp add: scoreFeature_gt0 scoreFeature_not_gt0)

lemma criteriaScores_scoreFeature:
  "criteriaScores (scoreFeature cs props) =
     snd (snd (snd (fold (scoreCriterion props) cs (0, 0, 0, Map.empty))))"
  by (simp add: scoreFeature_def split: prod.splits)







subsection \<open>The loop over the features\<close>

lemma fold_features_lookup:
  assumes "\<forall>g\<in>set fs. featureKey nts g = Some k \<longrightarrow> properties g = Some props"
  shows "fold (\<lambda>feature scores.
                 case properties feature of
                   None \<Rightarrow> scores
                 | Some props \<Rightarrow>
                     let zipcode = zipcodeOf props in
                     if \<not> truthy zipcode then scores
                     else scores(propertyKey nts zipcode \<mapsto> F props))
              fs m k =
         (if \<exists>g\<in>set fs. featureKey nts g = Some k then Some (F props) else m k)"
  using assms
proof (induction fs arbitrary: m)
  case Nil
  show ?case by simp
next
  case (Cons f fs)
  let ?step = "\<lambda>feature scores.
                 case properties feature of
                   None \<Rightarrow> scores
                 | Some props \<Rightarrow>
                     let zipcode = zipcodeOf props in
                     if \<not> truthy zipcode then scores
                     else scores(propertyKey nts zipcode \<mapsto> F props)"
  have IH: "fold ?step fs (?step f m) k =
      (if \<exists>g\<in>set fs. featureKey nts g = Some k then Some (F props) else ?step f m k)"
    using Cons.IH[of "?step f m"] Cons.prems by simp
  have hd: "?step f m k = (if featureKey nts f = Some k then Some (F props) else m k)"
  proof (cases "featureKey nts f = Some k")
    case True
    then have "properties f = Some props" using Cons.prems by simp
    with True show ?thesis
      by (simp add: featureKey_def Let_def split: if_splits)
  next
    case False
    then show ?thesis
      by (auto simp: featureKey_def Let_def split: option.splits if_splits)
  qed
  show ?case
    unfolding fold_Cons comp_def IH hd by simp
qed

lemma calculateZipcodeScores_lookup:
  assumes "filter enabled (criteria st) \<noteq> []"
    and "\<forall>g\<in>set fs. featureKey nts g = Some k \<longrightarrow> properties g = Some props"
  shows "calculateZipcodeScores nts st (Some fs) k =
     (if \<exists>g\<in>set fs. featureKey nts g = Some k
      then Some (scoreFeature (filter enabled (criteria st)) props) else None)"
proof (cases "fs = []")
  case True
  then show ?thesis by (simp add: calculateZipcodeScores_def)
next
  case False
  then show ?thesis
    using assms(1) fold_features_lookup[OF assms(2), of "scoreFeature (filter enabled (criteria st))" Map.empty]
    by (simp add: calculateZipcodeScores_def Let_def)
qed

lemma calculateZipcodeScores_unit:
  assumes "filter enabled (criteria st) \<noteq> []"
    and "f \<in> set fs"
    and "properties f = Some props"
    and "truthy (zipcodeOf props)"
    and "\<forall>g\<in>set fs. featureKey nts g = Some (propertyKey nts (zipcodeOf props)) \<longrightarrow>
           properties g = Some props"
  shows "calculateZipcodeScores nts st (Some fs) (propertyKey nts (zipcodeOf props)) =
           Some (scoreFeature (filter enabled (criteria st)) props)"
proof -
  have "featureKey nts f = Some (propertyKey nts (zipcodeOf props))"
    using assms(3,4) by (simp add: featureKey_def)
  with assms(2) have "\<exists>g\<in>set fs. featureKey nts g = Some (propertyKey nts (zipcodeOf props))"
    by blast
  then show ?thesis
    using calculateZipcodeScores_lookup[OF assms(1) assms(5)] by simp
qed

lemma filter_hasValue_idem:
  "weightSum props (filter (hasValue props) cs) = weightSum props cs"
  "weightedSum props (filter (hasValue props) cs) = weightedSum props cs"
  by (simp_all add: weightSum_def weightedSum_def)

lemma filter_hasValue_removeAll:
  "\<not> hasValue props c \<Longrightarrow>
   filter (hasValue props) (removeAll c cs) = filter (hasValue props) cs"
  by (induction cs) auto


subsection \<open>Evaluation of the examples\<close>

lemma objectLiteral_apply:
  "objectLiteral kvs key =
     (case map_of (rev kvs) key of None \<Rightarrow> JUndefined | Some v \<Rightarrow> v)"
  by (simp add: objectLiteral_def readProperty_def)

section \<open>The claims about the scoring engine\<close>

subsection \<open>The weighted average\<close>



subsection \<open>Criteria without an observation\<close>

text \<open>
  C2. In the primary path, take a feature of the input that has a key (the features with
  that key carrying the same properties) and an enabled criterion \<open>c\<close> whose rating kind has
  no observation for it (the property is \<^verbatim>\<open>undefined\<close> or \<^verbatim>\<open>null\<close>). The step of the loop
  for \<open>c\<close> leaves \<open>totalScore\<close>, \<open>totalWeight\<close> and \<open>usedCriteria\<close> as they are and marks the
  breakdown entry of \<open>c\<close> as missing. The function returns a result for the key whose
  \<open>finalScore\<close> and \<open>usedCriteria\<close> are those computed from only the criteria that have an
  observation, whose \<open>finalScore\<close> is the one computed without \<open>c\<close>, and whose breakdown
  entry for \<open>c\<close> is the entry with \<^verbatim>\<open>used: false\<close>. No midpoint value stands in for the
  missing observation.
\<close>

theorem missing_criterion_skipped:
  assumes "f \<in> set fs"
    and "properties f = Some props"
    and "truthy (zipcodeOf props)"
    and "\<forall>g\<in>set fs. featureKey nts g = Some (propertyKey nts (zipcodeOf props)) \<longrightarrow>
           properties g = Some props"
    and "c \<in> set (criteria st)"
    and "enabled c"
    and "\<not> hasValue props c"
  shows "scoreCriterion props c (totalScore, totalWeight, n, m) =
           (totalScore, totalWeight, n, m(criterion_id c \<mapsto> Missing)) \<and>
         (\<exists>r. calculateZipcodeScores nts st (Some fs) (propertyKey nts (zipcodeOf props)) = Some r \<and>
              finalScore r =
                finalScore (scoreFeature (filter (hasValue props) (filter enabled (criteria st))) props) \<and>
              usedCriteria r =
                usedCriteria (scoreFeature (filter (hasValue props) (filter enabled (criteria st))) props) \<and>
              finalScore r = finalScore (scoreFeature (removeAll c (filter enabled (criteria st))) props) \<and>
              criteriaScores r (criterion_id c) = Some Missing \<and>
              \<not> used Missing)"
proof -
  let ?ac = "filter enabled (criteria st)"
  let ?r = "scoreFeature ?ac props"
  have c: "c \<in> set ?ac" using assms(5,6) by simp
  then have ne: "?ac \<noteq> []" by (metis empty_iff list.set(1))
  have r: "calculateZipcodeScores nts st (Some fs) (propertyKey nts (zipcodeOf props)) = Some ?r"
    using ne assms(1-4) by (rule calculateZipcodeScores_unit)
  have fin: "finalScore ?r = finalScore (scoreFeature (filter (hasValue props) ?ac) props)"
    unfolding finalScore_scoreFeature filter_hasValue_idem by (rule refl)
  have usd: "usedCriteria ?r = usedCriteria (scoreFeature (filter (hasValue props) ?ac) props)"
  proof (cases "gt0 (weightSum props ?ac)")
    case True
    then have "gt0 (weightSum props (filter (hasValue props) ?ac))"
      unfolding filter_hasValue_idem .
    with True show ?thesis by (simp add: scoreFeature_gt0 del: filter_filter)
  next
    case False
    then have "\<not> gt0 (weightSum props (filter (hasValue props) ?ac))"
      unfolding filter_hasValue_idem .
    with False show ?thesis by (simp add: scoreFeature_not_gt0 del: filter_filter)
  qed
  have rem: "finalScore ?r = finalScore (scoreFeature (removeAll c ?ac) props)"
    using assms(7)
    by (simp add: finalScore_scoreFeature weightSum_def weightedSum_def filter_hasValue_removeAll)
  have ent: "criteriaScores ?r (criterion_id c) = Some Missing"
    unfolding criteriaScores_scoreFeature
    using assms(7) c by (intro fold_scoreCriterion_missing_entry) auto
  show ?thesis
    using r fin usd rem ent assms(7) by (simp add: scoreCriterion_missing)
qed

theorem missing_criterion_skipped_witness:
  "\<exists>r. calculateZipcodeScores noNumberKeys
         \<lparr>criteria = [\<lparr>criterion_id = ''schoolRating'', weight = Num 2, invert = False, enabled = True\<rparr>,
                      \<lparr>criterion_id = ''commuteTime'', weight = Num 1, invert = False, enabled = True\<rparr>],
          zipcodeData = None\<rparr>
         (Some [\<lparr>properties = Some (objectLiteral
                  [(''ZIP'', JString ''94110''), (''schoolRating'', JNull),
                   (''commuteTime'', JNumber (Num 6))])\<rparr>])
         ''94110'' = Some r \<and> finalScore r = Num 6 \<and> usedCriteria r = 1 \<and>
         criteriaScores r ''schoolRating'' = Some Missing"
proof -
  let ?props = "objectLiteral
                  [(''ZIP'', JString ''94110''), (''schoolRating'', JNull),
                   (''commuteTime'', JNumber (Num 6))]"
  let ?c = "\<lparr>criterion_id = ''schoolRating'', weight = Num 2, invert = False, enabled = True\<rparr>"
  let ?d = "\<lparr>criterion_id = ''commuteTime'', weight = Num 1, invert = False, enabled = True\<rparr>"
  let ?st = "\<lparr>criteria = [?c, ?d], zipcodeData = None\<rparr>"
  let ?f = "\<lparr>properties = Some ?props\<rparr>"
  have z: "zipcodeOf ?props = JString ''94110''"
    by (simp add: zipcodeOf_def js_or_def objectLiteral_apply)
  have hc: "\<not> hasValue ?props ?c"
    by (simp add: hasValue_def objectLiteral_apply)
  have hd: "hasValue ?props ?d"
    by (simp add: hasValue_def objectLiteral_apply)
  have fs: "finalScore (scoreFeature [?d] ?props) = Num 6"
    by (simp add: scoreFeature_def scoreCriterion_def Let_def zero_jsnum_def
        objectLiteral_apply)
  have us: "usedCriteria (scoreFeature [?d] ?props) = 1"
    by (simp add: scoreFeature_def scoreCriterion_def Let_def zero_jsnum_def
        objectLiteral_apply)
  show ?thesis
    using missing_criterion_skipped[of ?f "[?f]" ?props noNumberKeys ?c ?st "Num 0" "Num 0" 0 Map.empty]
    by (auto simp add: z hc hd fs us)
qed

subsection \<open>Inverted criteria\<close>

text \<open>
  C4. For a criterion whose observation for the unit is the number \<open>v\<close>, the step of the
  loop contributes the score \<open>10 - v\<close> when the criterion is inverted and \<open>v\<close> itself when it
  is not: that score, times the weight, is added to \<open>totalScore\<close>, the weight to
  \<open>totalWeight\<close>, and the score is recorded in the breakdown. The 10 is the literal of the
  code, not a value derived from the data. An inverted criterion with the value 3
  contributes 7.
\<close>

theorem inverted_criterion_score:
  assumes "props (criterion_id c) = JNumber v"
  shows "scoreCriterion props c (totalScore, totalWeight, n, m) =
     (let score = (if invert c then Num 10 - v else v) in
      (totalScore + score * weight c, totalWeight + weight c, n + 1,
       m(criterion_id c \<mapsto> Scored (JNumber v) (invert c) score (weight c) (score * weight c))))"
  using assms by (simp add: scoreCriterion_def Let_def)

theorem inverted_criterion_score_witness:
  "scoreCriterion (objectLiteral [(''crimeRate'', JNumber (Num 3))])
     \<lparr>criterion_id = ''crimeRate'', weight = Num 2, invert = True, enabled = True\<rparr>
     (Num 0, Num 0, 0, Map.empty) =
   (Num 14, Num 2, 1, [''crimeRate'' \<mapsto> Scored (JNumber (Num 3)) True (Num 7) (Num 2) (Num 14)])"
  using inverted_criterion_score[of "objectLiteral [(''crimeRate'', JNumber (Num 3))]"
      "\<lparr>criterion_id = ''crimeRate'', weight = Num 2, invert = True, enabled = True\<rparr>"
      "Num 3" "Num 0" "Num 0" 0 Map.empty]
  by (simp add: objectLiteral_apply)


subsection \<open>No enabled criterion\<close>

text \<open>
  C3, as claimed, fails: with an empty list of criteria the unit 94110 of the input
  receives no result at all, so it has no result with the sentinel score.
\<close>

theorem no_enabled_criteria_counterexample:
  "calculateZipcodeScores noNumberKeys \<lparr>criteria = [], zipcodeData = None\<rparr>
     (Some [\<lparr>properties = Some (objectLiteral
              [(''ZIP'', JString ''94110''), (''schoolRating'', JNumber (Num 8))])\<rparr>])
     ''94110'' = None"
  by (simp add: calculateZipcodeScores_def)

text \<open>
  C3, as amended. A call whose criteria hold no enabled criterion is not an error: for
  every input (also a missing or empty list of features) it returns the empty object, in
  which no unit has a result.
\<close>

theorem no_enabled_criteria_no_results:
  assumes "filter enabled (criteria st) = []"
  shows "calculateZipcodeScores numberToString st fso = Map.empty"
  using assms by (simp add: calculateZipcodeScores_def split: option.splits)

theorem no_enabled_criteria_no_results_witness:
  "filter enabled (criteria \<lparr>criteria =
       [\<lparr>criterion_id = ''schoolRating'', weight = Num 1, invert = False, enabled = False\<rparr>],
       zipcodeData = None\<rparr>) = [] \<and>
   calculateZipcodeScores noNumberKeys
     \<lparr>criteria =
       [\<lparr>criterion_id = ''schoolRating'', weight = Num 1, invert = False, enabled = False\<rparr>],
      zipcodeData = None\<rparr>
     (Some [\<lparr>properties = Some (objectLiteral
              [(''ZIP'', JString ''94110''), (''schoolRating'', JNumber (Num 8))])\<rparr>]) = Map.empty"
  using no_enabled_criteria_no_results[of
      "\<lparr>criteria =
         [\<lparr>criterion_id = ''schoolRating'', weight = Num 1, invert = False, enabled = False\<rparr>],
        zipcodeData = None\<rparr>" noNumberKeys
      "Some [\<lparr>properties = Some (objectLiteral
              [(''ZIP'', JString ''94110''), (''schoolRating'', JNumber (Num 8))])\<rparr>]"]
  by simp

subsection \<open>The two fallback policies\<close>

text \<open>
  C6. The primary path and the replacement installed by \<^verbatim>\<open>applyFixes\<close> are not
  equivalent: for the unit 94110 with the school rating 10 and no commute time, and two
  enabled criteria of weight 1, the primary path skips the missing criterion and gives
  \<open>finalScore\<close> 10, the replacement substitutes 5 and gives 7.5.
\<close>

theorem fallback_policies_differ:
  "\<exists>st fs key r x.
     zipcodeData st = Some \<lparr>features = Some fs\<rparr> \<and>
     calculateZipcodeScores numberToString st (Some fs) key = Some r \<and>
     fixedCalculateZipcodeScores numberToString st key = Some x \<and>
     finalScore r = Num 10 \<and> x = Num (15 / 2) \<and> finalScore r \<noteq> x"
proof -
  let ?props = "objectLiteral
                  [(''ZIP'', JString ''94110''), (''schoolRating'', JNumber (Num 10)),
                   (''commuteTime'', JNull)]"
  let ?fs = "[\<lparr>properties = Some ?props\<rparr>]"
  let ?st = "\<lparr>criteria =
               [\<lparr>criterion_id = ''schoolRating'', weight = Num 1, invert = False, enabled = True\<rparr>,
                \<lparr>criterion_id = ''commuteTime'', weight = Num 1, invert = False, enabled = True\<rparr>],
             zipcodeData = Some \<lparr>features = Some ?fs\<rparr>\<rparr>"
  have z: "zipcodeOf ?props = JString ''94110''"
    by (simp add: zipcodeOf_def js_or_def objectLiteral_apply)
  have a: "map_option finalScore (calculateZipcodeScores numberToString ?st (Some ?fs) ''94110'') =
             Some (Num 10)"
    by (simp add: calculateZipcodeScores_def z scoreFeature_def scoreCriterion_def Let_def
        zero_jsnum_def objectLiteral_apply)
  have b: "fixedCalculateZipcodeScores numberToString ?st ''94110'' = Some (Num (15 / 2))"
    by (simp add: fixedCalculateZipcodeScores_def z fixedScoreFeature_def fixedScoreCriterion_def
        Let_def zero_jsnum_def objectLiteral_apply)
  from a obtain r where r: "calculateZipcodeScores numberToString ?st (Some ?fs) ''94110'' = Some r"
    "finalScore r = Num 10" by auto
  have "zipcodeData ?st = Some \<lparr>features = Some ?fs\<rparr>" by simp
  moreover have "finalScore r \<noteq> Num (15 / 2)" using r(2) by simp
  ultimately show ?thesis using r b by blast
qed

subsection \<open>Values that are not numbers\<close>

text \<open>
  C10. A present value that does not parse as a number is neither skipped nor rejected in
  the primary path: for the unit 94110 whose school rating is the string \<^verbatim>\<open>N/A\<close>,
  \<^verbatim>\<open>parseFloat\<close> gives \<open>NaN\<close>, the criterion counts as used (its breakdown entry says so,
  \<open>usedCriteria\<close> is 2, no error is reported, and the total weight is 1 + 3 = 4), and
  \<open>finalScore\<close> is \<open>NaN\<close>, not the sentinel and not the value 8 of the other criterion.
\<close>

theorem unparseable_value_gives_NaN:
  "\<exists>r. parseFloat (JString ''N/A'') = NaN \<and>
       calculateZipcodeScores numberToString
         \<lparr>criteria =
            [\<lparr>criterion_id = ''schoolRating'', weight = Num 1, invert = False, enabled = True\<rparr>,
             \<lparr>criterion_id = ''commuteTime'', weight = Num 3, invert = False, enabled = True\<rparr>],
          zipcodeData = None\<rparr>
         (Some [\<lparr>properties = Some (objectLiteral
                  [(''ZIP'', JString ''94110''), (''schoolRating'', JString ''N/A''),
                   (''commuteTime'', JNumber (Num 8))])\<rparr>])
         ''94110'' = Some r \<and>
       finalScore r = NaN \<and> usedCriteria r = 2 \<and> totalCriteria r = 2 \<and> error r = None \<and>
       criteriaScores r ''schoolRating'' = Some (Scored (JString ''N/A'') False NaN (Num 1) NaN) \<and>
       used (Scored (JString ''N/A'') False NaN (Num 1) NaN) \<and>
       fst (snd (fold (scoreCriterion (objectLiteral
                  [(''ZIP'', JString ''94110''), (''schoolRating'', JString ''N/A''),
                   (''commuteTime'', JNumber (Num 8))]))
            [\<lparr>criterion_id = ''schoolRating'', weight = Num 1, invert = False, enabled = True\<rparr>,
             \<lparr>criterion_id = ''commuteTime'', weight = Num 3, invert = False, enabled = True\<rparr>]
            (0, 0, 0, Map.empty))) = Num 4"
proof -
  let ?props = "objectLiteral
                  [(''ZIP'', JString ''94110''), (''schoolRating'', JString ''N/A''),
                   (''commuteTime'', JNumber (Num 8))]"
  have z: "zipcodeOf ?props = JString ''94110''"
    by (simp add: zipcodeOf_def js_or_def objectLiteral_apply)
  have p: "parseFloat (JString ''N/A'') = NaN"
    by (simp add: strDecimalLiteral_def strUnsignedDecimalLiteral_def isDigit_def isWhiteSpace_def)
  show ?thesis
    by (simp add: calculateZipcodeScores_def z p scoreFeature_def scoreCriterion_def Let_def
        zero_jsnum_def objectLiteral_apply del: parseFloat.simps)
qed

subsection \<open>Independence of the order of units and criteria\<close>










section \<open>The claims about the GeoJSON handler\<close>

lemma organizeRatings_snoc:
  "organizeRatings (rows @ [row]) =
     (let m = organizeRatings rows;
          ratings = (case m (ratingKey row) of None \<Rightarrow> Map.empty | Some r \<Rightarrow> r)
      in m(ratingKey row \<mapsto> ratings(zr_rating_type row \<mapsto> realValue (zr_rating_value row))))"
  by (simp add: organizeRatings_def ratingKey_def Let_def)

lemma organizeRatings_lookup:
  "(case organizeRatings rows z of None \<Rightarrow> Map.empty | Some r \<Rightarrow> r) kind = lastRating rows z kind"
proof (induction rows rule: rev_induct)
  case Nil
  show ?case by (simp add: organizeRatings_def lastRating_def)
next
  case (snoc row rows)
  show ?case
  proof (cases "ratingKey row = z")
    case True
    show ?thesis
    proof (cases "zr_rating_type row = kind")
      case k: True
      with True show ?thesis
        by (simp add: organizeRatings_snoc lastRating_def Let_def)
    next
      case k: False
      with True snoc.IH show ?thesis
        by (simp add: organizeRatings_snoc lastRating_def Let_def)
    qed
  next
    case False
    with snoc.IH show ?thesis
      by (simp add: organizeRatings_snoc lastRating_def Let_def)
  qed
qed

text \<open>
  What the handler serves: one feature per zipcode row, and for each advertised rating
  kind the observation of the zipcode when it is truthy, \<^verbatim>\<open>null\<close> when there is none or
  when it is falsy (\<^verbatim>\<open>NULL\<close>, 0 or \<open>NaN\<close>).
\<close>

lemma geojson_rating_properties:
  assumes "i < length zipcodesRows"
    and "kind \<in> set advertisedKinds"
  shows "\<exists>fs. zipcodesGeojson zipcodesRows ratingsRows = Inr fs \<and>
           length fs = length zipcodesRows \<and>
           gf_properties (fs ! i) ''ZIP'' = JString (z_zip (zipcodesRows ! i)) \<and>
           gf_properties (fs ! i) kind =
             (case lastRating ratingsRows (z_zip (zipcodesRows ! i)) kind of
                None \<Rightarrow> JNull
              | Some v \<Rightarrow> if truthy v then v else JNull)"
proof -
  let ?row = "zipcodesRows ! i"
  let ?m = "case organizeRatings ratingsRows (z_zip ?row) of None \<Rightarrow> Map.empty | Some r \<Rightarrow> r"
  have ne: "zipcodesRows \<noteq> []" using assms(1) by (cases zipcodesRows) simp_all
  have look: "readProperty ?m k = (case lastRating ratingsRows (z_zip ?row) k of
                 None \<Rightarrow> JUndefined | Some v \<Rightarrow> v)" for k
    by (simp add: readProperty_def organizeRatings_lookup)
  have or: "js_or (readProperty ?m k) JNull =
      (case lastRating ratingsRows (z_zip ?row) k of None \<Rightarrow> JNull
       | Some v \<Rightarrow> if truthy v then v else JNull)" for k
    unfolding look by (simp add: js_or_def split: option.splits)
  have kinds: "kind = ''schoolRating'' \<or> kind = ''crimeRate'' \<or> kind = ''nicheRating'' \<or>
               kind = ''commuteTime'' \<or> kind = ''neighborhoodRating''"
    using assms(2) by (simp add: advertisedKinds_def)
  show ?thesis
    using ne assms(1) kinds or
    by (auto simp add: zipcodesGeojson_def Let_def objectLiteral_apply)
qed

text \<open>
  C7 fails on the handler: \<^verbatim>\<open>ratings.crimeRate || null\<close> replaces every falsy value by
  \<^verbatim>\<open>null\<close>, so a stored crime rate of 0 is served as "no data". A stored 8 is served as
  8, and a rating kind without a row as \<^verbatim>\<open>null\<close>.
\<close>

theorem geojson_zero_rating_becomes_null:
  "\<exists>f. zipcodesGeojson
          [\<lparr>z_zip = ''94110'', z_name = Some ''San Francisco'', z_county = None, z_state = Some ''CA'',
            z_geom = None\<rparr>]
          [\<lparr>zr_id = 1, zr_zip = Some ''94110'', zr_rating_type = ''crimeRate'',
            zr_rating_value = Some (Num 0), zr_confidence = Some (Num 1), zr_source = None,
            zr_source_url = None, zr_last_updated = None\<rparr>,
           \<lparr>zr_id = 2, zr_zip = Some ''94110'', zr_rating_type = ''schoolRating'',
            zr_rating_value = Some (Num 8), zr_confidence = Some (Num 1), zr_source = None,
            zr_source_url = None, zr_last_updated = None\<rparr>] = Inr [f] \<and>
        gf_properties f ''crimeRate'' = JNull \<and>
        gf_properties f ''schoolRating'' = JNumber (Num 8) \<and>
        gf_properties f ''nicheRating'' = JNull"
  by (simp add: zipcodesGeojson_def organizeRatings_def ratingKey_def Let_def textValue_def
      realValue_def objectLiteral_apply readProperty_def js_or_def)

section \<open>The claims about the rating store\<close>













section \<open>The claims about the source scheduler\<close>

lemma force_update_empty: "force_update tbl = []"
  by (simp add: force_update_def)

lemma isDue_empty: "isDue [] now src"
  by (simp add: isDue_def)

lemma distinct_count_list_1:
  "distinct xs \<Longrightarrow> x \<in> set xs \<Longrightarrow> count_list xs x = 1"
  by (induction xs) (auto simp: count_list_0_iff)

text \<open>
  C8. \<open>forceAll\<close> deletes every record of \<^verbatim>\<open>data_sources\<close>, whatever the table held. The
  tick that follows runs exactly the registered sources, each of them once (source names
  are unique), whatever \<open>nextUpdate\<close> the sources had before and whether or not their runs
  succeed.
\<close>

theorem forceAll_then_tick_runs_every_source:
  assumes "distinct (map sc_name registry)"
  shows "forceAll tbl = [] \<and>
         fst (tick ingest registry now (forceAll tbl)) = map sc_name registry \<and>
         (\<forall>cfg\<in>set registry.
            count_list (fst (tick ingest registry now (forceAll tbl))) (sc_name cfg) = 1)"
proof -
  have e: "forceAll tbl = []"
    by (simp add: forceAll_def force_update_empty)
  have run: "fst (tick ingest registry now (forceAll tbl)) = map sc_name registry"
    unfolding e by (simp add: tick_def dueSources_def isDue_empty)
  have "count_list (map sc_name registry) (sc_name cfg) = 1" if "cfg \<in> set registry" for cfg
    using assms that by (intro distinct_count_list_1) simp_all
  with e run show ?thesis by simp
qed

theorem forceAll_then_tick_runs_every_source_witness:
  "fst (tick (\<lambda>src. src = ''census'')
         [\<lparr>sc_name = ''census'', sc_update_frequency = 86400, sc_url = None\<rparr>,
          \<lparr>sc_name = ''niche'', sc_update_frequency = 604800, sc_url = None\<rparr>]
         1000
         (forceAll
            [\<lparr>ds_source_name = ''census'', ds_last_updated = Some 900,
              ds_next_update = Some 87300, ds_update_frequency = Some 86400,
              ds_url = None, ds_notes = None\<rparr>])) = [''census'', ''niche''] \<and>
   count_list
     (fst (tick (\<lambda>src. src = ''census'')
         [\<lparr>sc_name = ''census'', sc_update_frequency = 86400, sc_url = None\<rparr>,
          \<lparr>sc_name = ''niche'', sc_update_frequency = 604800, sc_url = None\<rparr>]
         1000
         (forceAll
            [\<lparr>ds_source_name = ''census'', ds_last_updated = Some 900,
              ds_next_update = Some 87300, ds_update_frequency = Some 86400,
              ds_url = None, ds_notes = None\<rparr>]))) ''census'' = 1 \<and>
   dueSources
         [\<lparr>sc_name = ''census'', sc_update_frequency = 86400, sc_url = None\<rparr>,
          \<lparr>sc_name = ''niche'', sc_update_frequency = 604800, sc_url = None\<rparr>]
         [\<lparr>ds_source_name = ''census'', ds_last_updated = Some 900,
              ds_next_update = Some 87300, ds_update_frequency = Some 86400,
              ds_url = None, ds_notes = None\<rparr>] 1000 = [''niche'']"
  using forceAll_then_tick_runs_every_source[of
      "[\<lparr>sc_name = ''census'', sc_update_frequency = 86400, sc_url = None\<rparr>,
        \<lparr>sc_name = ''niche'', sc_update_frequency = 604800, sc_url = None\<rparr>]"
      "[\<lparr>ds_source_name = ''census'', ds_last_updated = Some 900,
              ds_next_update = Some 87300, ds_update_frequency = Some 86400,
              ds_url = None, ds_notes = None\<rparr>]"
      "\<lambda>src. src = ''census''" 1000]
  by (auto simp add: dueSources_def isDue_def)

end
